theory Spec2Isabelle
  imports Main "HOL-Library.Sublist"
begin

section \<open>Exceptions\<close>

text \<open>
  An exception raised by the kaitai-generated structural parser: the name of its class
  and its \<^verbatim>\<open>args\<close> tuple. The classes the kaitai runtime raises (\<^verbatim>\<open>EOFError\<close> on a read
  past the end of the stream, \<^verbatim>\<open>ValidationNotEqualError\<close> on a magic mismatch,
  \<^verbatim>\<open>UnicodeDecodeError\<close> on a string field, ...) all derive from \<^verbatim>\<open>Exception\<close>, which is
  what the handlers \<^verbatim>\<open>except (Exception, ValidationNotEqualError)\<close> below catch.
\<close>

datatype kaitai_exception = KaitaiRaised (exc_class: string) (exc_args: "string list")

text \<open>
  The argument of an \<^verbatim>\<open>UnpackParserException\<close>: the \<^verbatim>\<open>args\<close> of the exception it wraps,
  or the message of a failed condition.
\<close>

datatype upe_argument = Args "string list" | Message string

datatype py_exception =
    UnpackParserException upe_argument
  | IndexError
  | ValueError
  | UnicodeDecodeError
  | BadGzipFile
  | FileNotFoundError
  | FileExistsError
  | IsADirectoryError

fun is_UnpackParserException :: "py_exception \<Rightarrow> bool" where
  "is_UnpackParserException (UnpackParserException a) = True"
| "is_UnpackParserException _ = False"

text \<open>
  Modelled from the spec: \<^verbatim>\<open>check_condition\<close> is imported from the module
  \<^verbatim>\<open>UnpackParser\<close>, which is not among the sources. A validation condition that does
  not hold makes the parse fail with the structural-mismatch signal
  (\<^verbatim>\<open>UnpackParserException\<close>), carrying the message; one that holds lets the parse go on.
\<close>

definition check_condition :: "bool \<Rightarrow> string \<Rightarrow> py_exception + unit" where
  "check_condition condition message =
     (if \<not> condition then Inl (UnpackParserException (Message message)) else Inr ())"

section \<open>The BMP parser\<close>

text \<open>
  The structure \<^verbatim>\<open>bmp.Bmp.from_io\<close> returns, with the one field the parser reads:
  \<^verbatim>\<open>file_hdr.len_file\<close>, an unsigned 32-bit field of the BMP file header. The generated
  parser is not among the sources; the outcome of the call \<^verbatim>\<open>from_io(self.infile)\<close>
  (the exception it raises, or the structure it returns) is an argument of \<open>Bmp_parse\<close>.
\<close>

record bmp_file_hdr =
  len_file :: nat

record bmp =
  file_hdr :: bmp_file_hdr

record bmp_parser =
  chunknames :: "string set"
  bmp_data :: bmp

definition Bmp_parse :: "kaitai_exception + bmp \<Rightarrow> py_exception + bmp_parser" where
  "Bmp_parse from_io =
     (case from_io of
        Inl e \<Rightarrow> Inl (UnpackParserException (Args (exc_args e)))
      | Inr d \<Rightarrow> Inr \<lparr>chunknames = {}, bmp_data = d\<rparr>)"

text \<open>\<^verbatim>\<open>calculate_unpacked_size\<close>: the value assigned to \<^verbatim>\<open>self.unpacked_size\<close>.\<close>

definition Bmp_calculate_unpacked_size :: "bmp_parser \<Rightarrow> nat" where
  "Bmp_calculate_unpacked_size self = len_file (file_hdr (bmp_data self))"

section \<open>The Huawei Android boot image parser\<close>

text \<open>
  What \<^verbatim>\<open>android_img_huawei.AndroidImgHuawei.from_io\<close> returns, with the fields the
  parser reads. Offsets and sizes are unsigned fields of the image header; Python adds
  them as unbounded integers, so they are natural numbers here.
\<close>

record img_header_entry =
  name :: string
  offset :: nat
  size_field :: nat

record img_header_rec =
  meta_header_size :: nat

record android_img_huawei =
  img_header :: img_header_rec
  img_header_entries :: "img_header_entry list"

record huawei_parser =
  data :: android_img_huawei
  unpacked_size :: nat

text \<open>
  The loop of \<^verbatim>\<open>parse\<close>:
  \<^verbatim>\<open>for entry in ...: self.unpacked_size = max(self.unpacked_size, entry.offset + entry.size)\<close>.
\<close>

fun unpacked_size_loop :: "img_header_entry list \<Rightarrow> nat \<Rightarrow> nat" where
  "unpacked_size_loop [] acc = acc"
| "unpacked_size_loop (entry # entries) acc =
     unpacked_size_loop entries (max acc (offset entry + size_field entry))"

text \<open>
  \<^verbatim>\<open>parse\<close>. \<open>file_size\<close> is \<^verbatim>\<open>self.fileresult.filename.stat().st_size\<close>, read before the
  structural parse; \<open>from_io\<close> is the outcome of the structural parse.
\<close>

definition Huawei_parse ::
  "nat \<Rightarrow> kaitai_exception + android_img_huawei \<Rightarrow> py_exception + huawei_parser" where
  "Huawei_parse file_size from_io =
     (case from_io of
        Inl e \<Rightarrow> Inl (UnpackParserException (Args (exc_args e)))
      | Inr d \<Rightarrow>
          (case check_condition (meta_header_size (img_header d) = 76) ''invalid header size'' of
             Inl x \<Rightarrow> Inl x
           | Inr _ \<Rightarrow>
               (let us = unpacked_size_loop (img_header_entries d) 0 in
                case check_condition (file_size \<ge> us) ''not enough data'' of
                  Inl x \<Rightarrow> Inl x
                | Inr _ \<Rightarrow> Inr \<lparr>data = d, unpacked_size = us\<rparr>)))"

text \<open>\<^verbatim>\<open>calculate_unpacked_size\<close> is \<^verbatim>\<open>pass\<close>: the parser object is left as it is.\<close>

definition Huawei_calculate_unpacked_size :: "huawei_parser \<Rightarrow> huawei_parser" where
  "Huawei_calculate_unpacked_size self = self"

subsection \<open>Paths\<close>

text \<open>
  A \<^verbatim>\<open>pathlib\<close> path is the list of its parts, as \<^verbatim>\<open>Path.parts\<close> gives them; an
  absolute path has its root (\<^verbatim>\<open>/\<close>) as first part.
\<close>

type_synonym path = "string list"

text \<open>\<^verbatim>\<open>s.split(c)\<close> for a separator of one character: empty pieces are kept.\<close>

fun split_char :: "char \<Rightarrow> string \<Rightarrow> string list" where
  "split_char c [] = [[]]"
| "split_char c (x # xs) =
     (if x = c then [] # split_char c xs
      else (case split_char c xs of
              [] \<Rightarrow> [[x]]
            | p # ps \<Rightarrow> (x # p) # ps))"

text \<open>
  \<^verbatim>\<open>pathlib.Path(s)\<close> on a POSIX system: the string is cut at the slashes, empty parts
  and single dots are dropped, and a leading slash becomes the root (exactly two leading
  slashes are kept as the root \<^verbatim>\<open>//\<close>).
\<close>

definition path_root :: "string \<Rightarrow> string list" where
  "path_root s =
     (if prefix ''//'' s \<and> \<not> prefix ''///'' s then [''//'']
      else if prefix ''/'' s then [''/'']
      else [])"

definition Path :: "string \<Rightarrow> path" where
  "Path s = path_root s @ filter (\<lambda>p. p \<noteq> [] \<and> p \<noteq> ''.'') (split_char CHR ''/'' s)"

definition is_absolute :: "path \<Rightarrow> bool" where
  "is_absolute p = (case p of [] \<Rightarrow> False | r # _ \<Rightarrow> r = ''/'' \<or> r = ''//'')"

text \<open>\<^verbatim>\<open>a / b\<close>: an absolute right operand replaces the left one.\<close>

definition path_div :: "path \<Rightarrow> path \<Rightarrow> path" where
  "path_div a b = (if is_absolute b then b else a @ b)"

subsection \<open>Unpacking\<close>

text \<open>
  \<^verbatim>\<open>FileResult(parent, path, labels)\<close>; the class is not among the sources and is kept as
  the record of its constructor's arguments.
\<close>

datatype fileresult = FileResult "fileresult option" path "string set"

text \<open>
  The effect of \<^verbatim>\<open>unpack\<close>: the calls of \<^verbatim>\<open>self.extract_to_file(path, offset, size)\<close> it
  makes, in order, and the list it returns. \<^verbatim>\<open>extract_to_file\<close> belongs to the base
  class, which is not among the sources: a call is recorded with its arguments.
\<close>

record unpack_state =
  extracted :: "(path \<times> nat \<times> nat) list"
  unpacked_files :: "fileresult list"

fun unpack_loop ::
  "fileresult \<Rightarrow> path \<Rightarrow> img_header_entry list \<Rightarrow> unpack_state \<Rightarrow> unpack_state" where
  "unpack_loop fr rel_unpack_dir [] st = st"
| "unpack_loop fr rel_unpack_dir (entry # entries) st =
     (if size_field entry = 0 then unpack_loop fr rel_unpack_dir entries st
      else if name entry = '''' then unpack_loop fr rel_unpack_dir entries st
      else
        (let out_labels = [];
             file_path = Path (name entry);
             st1 = st\<lparr>extracted := extracted st @
                     [(path_div rel_unpack_dir file_path, offset entry, size_field entry)]\<rparr>;
             fr' = FileResult (Some fr) (path_div rel_unpack_dir file_path) (set out_labels);
             st2 = st1\<lparr>unpacked_files := unpacked_files st1 @ [fr']\<rparr>
         in unpack_loop fr rel_unpack_dir entries st2))"

definition unpack :: "fileresult \<Rightarrow> path \<Rightarrow> huawei_parser \<Rightarrow> unpack_state" where
  "unpack fr rel_unpack_dir self =
     unpack_loop fr rel_unpack_dir (img_header_entries (data self))
       \<lparr>extracted = [], unpacked_files = []\<rparr>"

subsection \<open>Metadata and labels\<close>

datatype meta_value =
    MStr string
  | MInt nat
  | MList "meta_value list"
  | MDict "(string \<times> meta_value) list"

record unpack_results =
  labels :: "string list"
  metadata :: "string \<rightharpoonup> meta_value"

fun partitions_loop :: "img_header_entry list \<Rightarrow> meta_value list \<Rightarrow> meta_value list" where
  "partitions_loop [] acc = acc"
| "partitions_loop (entry # entries) acc =
     (if size_field entry = 0 then partitions_loop entries acc
      else partitions_loop entries
             (acc @ [MDict [(''name'', MStr (name entry)),
                            (''offset'', MInt (offset entry)),
                            (''size'', MInt (size_field entry))]]))"

definition Huawei_set_metadata_and_labels :: "huawei_parser \<Rightarrow> unpack_results" where
  "Huawei_set_metadata_and_labels self =
     (let labels = [''android'', ''bootloader'', ''huawei''];
          metadata = Map.empty;
          metadata = metadata(''partitions'' \<mapsto>
                       MList (partitions_loop (img_header_entries (data self)) []))
      in \<lparr>labels = labels, metadata = metadata\<rparr>)"

section \<open>What the claims say, in their own words\<close>

text \<open>The end offset of a header entry.\<close>

definition entry_end :: "img_header_entry \<Rightarrow> nat" where
  "entry_end e = offset e + size_field e"

text \<open>
  The maximum over all header entries of \<open>offset + size\<close>, and 0 when there are no
  entries.
\<close>

definition max_entry_end :: "img_header_entry list \<Rightarrow> nat" where
  "max_entry_end es = (if es = [] then 0 else Max (set (map entry_end es)))"

text \<open>
  The three validation conditions of the Huawei parser, as a predicate on the file size
  and the outcome of the structural parse: it raised, or the header size is not 76, or
  the file is smaller than the largest entry end.
\<close>

definition validation_fails :: "nat \<Rightarrow> kaitai_exception + android_img_huawei \<Rightarrow> bool" where
  "validation_fails file_size from_io =
     (case from_io of
        Inl e \<Rightarrow> True
      | Inr d \<Rightarrow> meta_header_size (img_header d) \<noteq> 76
                 \<or> file_size < max_entry_end (img_header_entries d))"

text \<open>The entries that \<^verbatim>\<open>unpack\<close> writes out, and those listed as partitions.\<close>

definition is_unpacked :: "img_header_entry \<Rightarrow> bool" where
  "is_unpacked e = (size_field e > 0 \<and> name e \<noteq> '''')"

definition partition_record :: "img_header_entry \<Rightarrow> meta_value" where
  "partition_record e =
     MDict [(''name'', MStr (name e)), (''offset'', MInt (offset e)),
            (''size'', MInt (size_field e))]"

section \<open>Properties of the parsers\<close>

lemma unpacked_size_loop_max:
  "unpacked_size_loop es acc = Max (insert acc (set (map entry_end es)))"
proof (induction es arbitrary: acc)
  case Nil
  show ?case by simp
next
  case (Cons e es)
  have "Max (insert (max acc (entry_end e)) (set (map entry_end es)))
        = Max (insert acc (insert (entry_end e) (set (map entry_end es))))"
  proof (cases "es = []")
    case True
    then show ?thesis by (simp add: max_def)
  next
    case False
    then have ne: "set (map entry_end es) \<noteq> {}" by simp
    have fin: "finite (set (map entry_end es))" by simp
    show ?thesis using fin ne by (simp add: max.assoc)
  qed
  then show ?case using Cons.IH [of "max acc (entry_end e)"]
    by (simp add: entry_end_def)
qed

lemma unpacked_size_loop_zero: "unpacked_size_loop es 0 = max_entry_end es"
proof (cases "es = []")
  case True
  then show ?thesis by (simp add: max_entry_end_def)
next
  case False
  then have ne: "set (map entry_end es) \<noteq> {}" by simp
  have "Max (insert 0 (set (map entry_end es))) = Max (set (map entry_end es))"
    using ne by (simp add: max_def)
  then show ?thesis using False
    by (simp add: unpacked_size_loop_max max_entry_end_def)
qed

lemma Huawei_parse_Inr:
  "Huawei_parse file_size from_io = Inr self \<longleftrightarrow>
     (\<exists>d. from_io = Inr d \<and> meta_header_size (img_header d) = 76
          \<and> max_entry_end (img_header_entries d) \<le> file_size
          \<and> self = \<lparr>data = d, unpacked_size = max_entry_end (img_header_entries d)\<rparr>)"
  by (cases from_io)
     (auto simp: Huawei_parse_def check_condition_def unpacked_size_loop_zero Let_def)

lemma Huawei_parse_Inl:
  "Huawei_parse file_size from_io = Inl x \<longleftrightarrow>
     (case from_io of
        Inl e \<Rightarrow> x = UnpackParserException (Args (exc_args e))
      | Inr d \<Rightarrow>
          (if meta_header_size (img_header d) \<noteq> 76
           then x = UnpackParserException (Message ''invalid header size'')
           else file_size < max_entry_end (img_header_entries d)
                \<and> x = UnpackParserException (Message ''not enough data'')))"
  by (cases from_io)
     (auto simp: Huawei_parse_def check_condition_def unpacked_size_loop_zero Let_def)

lemma max_entry_end_pos:
  "0 < max_entry_end es \<longleftrightarrow> (\<exists>e \<in> set es. 0 < offset e + size_field e)"
proof (cases "es = []")
  case True
  then show ?thesis by (simp add: max_entry_end_def)
next
  case False
  then have ne: "set (map entry_end es) \<noteq> {}" by simp
  have "0 < Max (set (map entry_end es)) \<longleftrightarrow> (\<exists>a \<in> set (map entry_end es). 0 < a)"
    using ne by (subst Max_gr_iff) simp_all
  then show ?thesis using False
    by (auto simp: max_entry_end_def entry_end_def)
qed

lemma unpack_loop_filter:
  "unpack_loop fr rel es st =
     \<lparr>extracted = extracted st @
        map (\<lambda>e. (path_div rel (Path (name e)), offset e, size_field e)) (filter is_unpacked es),
      unpacked_files = unpacked_files st @
        map (\<lambda>e. FileResult (Some fr) (path_div rel (Path (name e))) {}) (filter is_unpacked es)\<rparr>"
  by (induction es arbitrary: st) (simp_all add: is_unpacked_def Let_def)

lemma partitions_loop_filter:
  "partitions_loop es acc = acc @ map partition_record (filter (\<lambda>e. size_field e \<noteq> 0) es)"
  by (induction es arbitrary: acc) (simp_all add: partition_record_def)

subsection \<open>C1: bounds on the unpacked size\<close>

text \<open>
  C1, as stated, fails: a Huawei image whose only entry is unused (offset 0, size 0) in
  a file of 100 bytes parses successfully with \<open>unpacked_size = 0\<close>, which is not
  greater than 0; and a BMP header that declares \<open>len_file = 0\<close> parses successfully
  with unpacked size 0.
\<close>

theorem C1_counterexample:
  "Huawei_parse 100
     (Inr \<lparr>img_header = \<lparr>meta_header_size = 76\<rparr>,
           img_header_entries = [\<lparr>name = '''', offset = 0, size_field = 0\<rparr>]\<rparr>)
   = Inr \<lparr>data = \<lparr>img_header = \<lparr>meta_header_size = 76\<rparr>,
                   img_header_entries = [\<lparr>name = '''', offset = 0, size_field = 0\<rparr>]\<rparr>,
          unpacked_size = 0\<rparr>
   \<and> Bmp_parse (Inr \<lparr>file_hdr = \<lparr>len_file = 0\<rparr>\<rparr>)
       = Inr \<lparr>chunknames = {}, bmp_data = \<lparr>file_hdr = \<lparr>len_file = 0\<rparr>\<rparr>\<rparr>
   \<and> Bmp_calculate_unpacked_size \<lparr>chunknames = {}, bmp_data = \<lparr>file_hdr = \<lparr>len_file = 0\<rparr>\<rparr>\<rparr> = 0"
  by (simp add: Huawei_parse_def check_condition_def Bmp_parse_def
        Bmp_calculate_unpacked_size_def)

text \<open>
  C1, amended: whenever the Huawei parse succeeds, the unpacked size is at most the file
  size, and it is greater than 0 exactly when some entry has \<open>offset + size > 0\<close>;
  whenever the BMP parse succeeds, the unpacked size is the \<open>len_file\<close> field as the
  header declares it, whatever the length of the file.
\<close>

theorem C1_unpacked_size_bounds:
  "(Huawei_parse file_size from_io = Inr self \<longrightarrow>
      unpacked_size self \<le> file_size
      \<and> (0 < unpacked_size self \<longleftrightarrow>
           (\<exists>e \<in> set (img_header_entries (data self)). 0 < offset e + size_field e)))
   \<and> (Bmp_parse bmp_io = Inr p \<longrightarrow>
        bmp_io = Inr (bmp_data p)
        \<and> Bmp_calculate_unpacked_size p = len_file (file_hdr (bmp_data p)))"
proof -
  have huawei: "unpacked_size self \<le> file_size
      \<and> (0 < unpacked_size self \<longleftrightarrow>
           (\<exists>e \<in> set (img_header_entries (data self)). 0 < offset e + size_field e))"
    if "Huawei_parse file_size from_io = Inr self"
  proof -
    from that obtain d where d: "max_entry_end (img_header_entries d) \<le> file_size"
      "self = \<lparr>data = d, unpacked_size = max_entry_end (img_header_entries d)\<rparr>"
      unfolding Huawei_parse_Inr by blast
    show ?thesis using d max_entry_end_pos [of "img_header_entries d"] by simp
  qed
  have bmp: "bmp_io = Inr (bmp_data p)
      \<and> Bmp_calculate_unpacked_size p = len_file (file_hdr (bmp_data p))"
    if "Bmp_parse bmp_io = Inr p"
    using that
    by (cases bmp_io) (auto simp: Bmp_parse_def Bmp_calculate_unpacked_size_def)
  show ?thesis using huawei bmp by blast
qed

theorem C1_unpacked_size_bounds_witness:
  "Huawei_parse 4096
     (Inr \<lparr>img_header = \<lparr>meta_header_size = 76\<rparr>,
           img_header_entries = [\<lparr>name = ''boot'', offset = 1024, size_field = 512\<rparr>]\<rparr>)
   = Inr \<lparr>data = \<lparr>img_header = \<lparr>meta_header_size = 76\<rparr>,
                   img_header_entries = [\<lparr>name = ''boot'', offset = 1024, size_field = 512\<rparr>]\<rparr>,
          unpacked_size = 1536\<rparr>
   \<and> (1536::nat) \<le> 4096
   \<and> Bmp_parse (Inr \<lparr>file_hdr = \<lparr>len_file = 70\<rparr>\<rparr>)
       = Inr \<lparr>chunknames = {}, bmp_data = \<lparr>file_hdr = \<lparr>len_file = 70\<rparr>\<rparr>\<rparr>
   \<and> Bmp_calculate_unpacked_size \<lparr>chunknames = {}, bmp_data = \<lparr>file_hdr = \<lparr>len_file = 70\<rparr>\<rparr>\<rparr> = 70"
proof -
  have h: "Huawei_parse 4096
     (Inr \<lparr>img_header = \<lparr>meta_header_size = 76\<rparr>,
           img_header_entries = [\<lparr>name = ''boot'', offset = 1024, size_field = 512\<rparr>]\<rparr>)
   = Inr \<lparr>data = \<lparr>img_header = \<lparr>meta_header_size = 76\<rparr>,
                   img_header_entries = [\<lparr>name = ''boot'', offset = 1024, size_field = 512\<rparr>]\<rparr>,
          unpacked_size = 1536\<rparr>"
    by (simp add: Huawei_parse_def check_condition_def)
  have b: "Bmp_parse (Inr \<lparr>file_hdr = \<lparr>len_file = 70\<rparr>\<rparr>)
       = Inr \<lparr>chunknames = {}, bmp_data = \<lparr>file_hdr = \<lparr>len_file = 70\<rparr>\<rparr>\<rparr>"
    by (simp add: Bmp_parse_def)
  from C1_unpacked_size_bounds
    [of 4096 "Inr \<lparr>img_header = \<lparr>meta_header_size = 76\<rparr>,
           img_header_entries = [\<lparr>name = ''boot'', offset = 1024, size_field = 512\<rparr>]\<rparr>"
        "\<lparr>data = \<lparr>img_header = \<lparr>meta_header_size = 76\<rparr>,
                   img_header_entries = [\<lparr>name = ''boot'', offset = 1024, size_field = 512\<rparr>]\<rparr>,
          unpacked_size = 1536\<rparr>"
        "Inr \<lparr>file_hdr = \<lparr>len_file = 70\<rparr>\<rparr>"
        "\<lparr>chunknames = {}, bmp_data = \<lparr>file_hdr = \<lparr>len_file = 70\<rparr>\<rparr>\<rparr>"]
  show ?thesis using h b by simp
qed

subsection \<open>C2: exceptions of the structural parse\<close>

text \<open>
  C2: whatever exception the structural parse raises inside \<^verbatim>\<open>parse\<close> (a read past the
  end of the input included), \<^verbatim>\<open>BmpUnpackParser.parse\<close> and
  \<^verbatim>\<open>AndroidBootHuaweiUnpackParser.parse\<close> raise an \<^verbatim>\<open>UnpackParserException\<close> built from
  its \<^verbatim>\<open>args\<close>; and on every input, an exception that leaves either \<^verbatim>\<open>parse\<close> is an
  \<^verbatim>\<open>UnpackParserException\<close>.
\<close>

theorem C2_parse_raises_only_UnpackParserException:
  "Bmp_parse (Inl e) = Inl (UnpackParserException (Args (exc_args e)))
   \<and> Huawei_parse file_size (Inl e) = Inl (UnpackParserException (Args (exc_args e)))
   \<and> (\<forall>x. Bmp_parse bmp_io = Inl x \<longrightarrow> is_UnpackParserException x)
   \<and> (\<forall>x. Huawei_parse file_size from_io = Inl x \<longrightarrow> is_UnpackParserException x)"
proof -
  have b: "is_UnpackParserException x" if "Bmp_parse bmp_io = Inl x" for x
    using that by (cases bmp_io) (auto simp: Bmp_parse_def)
  have h: "is_UnpackParserException x" if "Huawei_parse file_size from_io = Inl x" for x
    using that unfolding Huawei_parse_Inl
    by (cases from_io) (auto split: if_splits)
  show ?thesis using b h by (simp add: Bmp_parse_def Huawei_parse_def)
qed

theorem C2_parse_raises_only_UnpackParserException_witness:
  "Bmp_parse (Inl (KaitaiRaised ''EOFError'' [''requested 4 bytes, but only 2 bytes available'']))
     = Inl (UnpackParserException (Args [''requested 4 bytes, but only 2 bytes available'']))
   \<and> Huawei_parse 2 (Inl (KaitaiRaised ''EOFError'' [''requested 4 bytes, but only 2 bytes available'']))
     = Inl (UnpackParserException (Args [''requested 4 bytes, but only 2 bytes available'']))
   \<and> Huawei_parse 2 (Inr \<lparr>img_header = \<lparr>meta_header_size = 76\<rparr>,
          img_header_entries = [\<lparr>name = ''boot'', offset = 1024, size_field = 512\<rparr>]\<rparr>)
     = Inl (UnpackParserException (Message ''not enough data''))
   \<and> is_UnpackParserException (UnpackParserException (Message ''not enough data''))"
proof -
  have n: "Huawei_parse 2 (Inr \<lparr>img_header = \<lparr>meta_header_size = 76\<rparr>,
          img_header_entries = [\<lparr>name = ''boot'', offset = 1024, size_field = 512\<rparr>]\<rparr>)
     = Inl (UnpackParserException (Message ''not enough data''))"
    by (simp add: Huawei_parse_def check_condition_def)
  have e: "exc_args (KaitaiRaised ''EOFError'' [''requested 4 bytes, but only 2 bytes available''])
     = [''requested 4 bytes, but only 2 bytes available'']"
    by simp
  from C2_parse_raises_only_UnpackParserException
    [of "KaitaiRaised ''EOFError'' [''requested 4 bytes, but only 2 bytes available'']" 2
        "Inl (KaitaiRaised ''EOFError'' [''requested 4 bytes, but only 2 bytes available''])"
        "Inr \<lparr>img_header = \<lparr>meta_header_size = 76\<rparr>,
          img_header_entries = [\<lparr>name = ''boot'', offset = 1024, size_field = 512\<rparr>]\<rparr>"]
  show ?thesis unfolding e using n by simp
qed

subsection \<open>C3: when the Huawei parse fails\<close>

text \<open>
  C3: \<^verbatim>\<open>AndroidBootHuaweiUnpackParser.parse\<close> raises an \<^verbatim>\<open>UnpackParserException\<close> if and
  only if a validation condition fails (the structural parse raises, or the header size
  is not 76, or the file is smaller than the largest \<open>offset + size\<close> of the entries),
  and it succeeds if and only if none fails.
\<close>

theorem C3_parse_fails_iff_validation_fails:
  "((\<exists>a. Huawei_parse file_size from_io = Inl (UnpackParserException a))
      \<longleftrightarrow> validation_fails file_size from_io)
   \<and> ((\<exists>self. Huawei_parse file_size from_io = Inr self)
      \<longleftrightarrow> \<not> validation_fails file_size from_io)"
proof (cases from_io)
  case (Inl e)
  then show ?thesis by (simp add: Huawei_parse_def validation_fails_def)
next
  case (Inr d)
  have l: "(\<exists>a. Huawei_parse file_size (Inr d) = Inl (UnpackParserException a))
      \<longleftrightarrow> validation_fails file_size (Inr d)"
    unfolding Huawei_parse_Inl by (auto simp: validation_fails_def)
  have r: "(\<exists>self. Huawei_parse file_size (Inr d) = Inr self)
      \<longleftrightarrow> \<not> validation_fails file_size (Inr d)"
    unfolding Huawei_parse_Inr by (auto simp: validation_fails_def)
  show ?thesis using l r Inr by simp
qed

theorem C3_parse_fails_iff_validation_fails_witness:
  "validation_fails 1000 (Inr \<lparr>img_header = \<lparr>meta_header_size = 76\<rparr>,
          img_header_entries = [\<lparr>name = ''boot'', offset = 1024, size_field = 512\<rparr>,
                                \<lparr>name = ''fastboot'', offset = 100, size_field = 20\<rparr>]\<rparr>)
   \<and> (\<exists>a. Huawei_parse 1000 (Inr \<lparr>img_header = \<lparr>meta_header_size = 76\<rparr>,
          img_header_entries = [\<lparr>name = ''boot'', offset = 1024, size_field = 512\<rparr>,
                                \<lparr>name = ''fastboot'', offset = 100, size_field = 20\<rparr>]\<rparr>)
        = Inl (UnpackParserException a))"
proof -
  have v: "validation_fails 1000 (Inr \<lparr>img_header = \<lparr>meta_header_size = 76\<rparr>,
          img_header_entries = [\<lparr>name = ''boot'', offset = 1024, size_field = 512\<rparr>,
                                \<lparr>name = ''fastboot'', offset = 100, size_field = 20\<rparr>]\<rparr>)"
    by (simp add: validation_fails_def max_entry_end_def entry_end_def)
  from C3_parse_fails_iff_validation_fails
    [of 1000 "Inr \<lparr>img_header = \<lparr>meta_header_size = 76\<rparr>,
          img_header_entries = [\<lparr>name = ''boot'', offset = 1024, size_field = 512\<rparr>,
                                \<lparr>name = ''fastboot'', offset = 100, size_field = 20\<rparr>]\<rparr>"]
  show ?thesis using v by blast
qed

subsection \<open>C4: the consumed length of a Huawei image\<close>

text \<open>
  C4: after a successful parse of a Huawei boot image the parser holds the parsed
  structure, \<open>unpacked_size\<close> is the maximum over the header entries of
  \<open>offset + size\<close> (0 when there are none), a function of the parsed structure alone,
  and \<^verbatim>\<open>calculate_unpacked_size\<close> leaves the parser, and so that value, unchanged.
\<close>

theorem C4_unpacked_size_is_max_entry_end:
  "Huawei_parse file_size from_io = Inr self \<Longrightarrow>
     from_io = Inr (data self)
     \<and> unpacked_size self = max_entry_end (img_header_entries (data self))
     \<and> Huawei_calculate_unpacked_size self = self
     \<and> unpacked_size (Huawei_calculate_unpacked_size self)
         = max_entry_end (img_header_entries (data self))"
  unfolding Huawei_parse_Inr by (auto simp: Huawei_calculate_unpacked_size_def)

theorem C4_unpacked_size_is_max_entry_end_witness:
  "Huawei_parse 4096 (Inr \<lparr>img_header = \<lparr>meta_header_size = 76\<rparr>,
          img_header_entries = [\<lparr>name = ''boot'', offset = 1024, size_field = 512\<rparr>,
                                \<lparr>name = ''fastboot'', offset = 100, size_field = 20\<rparr>]\<rparr>)
     = Inr \<lparr>data = \<lparr>img_header = \<lparr>meta_header_size = 76\<rparr>,
          img_header_entries = [\<lparr>name = ''boot'', offset = 1024, size_field = 512\<rparr>,
                                \<lparr>name = ''fastboot'', offset = 100, size_field = 20\<rparr>]\<rparr>,
            unpacked_size = 1536\<rparr>
   \<and> max_entry_end [\<lparr>name = ''boot'', offset = 1024, size_field = 512\<rparr>,
                     \<lparr>name = ''fastboot'', offset = 100, size_field = 20\<rparr>] = 1536"
proof -
  have h: "Huawei_parse 4096 (Inr \<lparr>img_header = \<lparr>meta_header_size = 76\<rparr>,
          img_header_entries = [\<lparr>name = ''boot'', offset = 1024, size_field = 512\<rparr>,
                                \<lparr>name = ''fastboot'', offset = 100, size_field = 20\<rparr>]\<rparr>)
     = Inr \<lparr>data = \<lparr>img_header = \<lparr>meta_header_size = 76\<rparr>,
          img_header_entries = [\<lparr>name = ''boot'', offset = 1024, size_field = 512\<rparr>,
                                \<lparr>name = ''fastboot'', offset = 100, size_field = 20\<rparr>]\<rparr>,
            unpacked_size = 1536\<rparr>"
    by (simp add: Huawei_parse_def check_condition_def)
  from C4_unpacked_size_is_max_entry_end [OF h] h show ?thesis by simp
qed

subsection \<open>C5: the files unpacked from a Huawei image\<close>

text \<open>
  C5: \<^verbatim>\<open>unpack\<close> returns exactly one \<^verbatim>\<open>FileResult\<close> for each header entry with a size
  greater than 0 and a non-empty name, in the order of the header entries; each is
  extracted from the byte range \<open>(offset, size)\<close> of its entry to the path made from the
  entry's name under the unpack directory. Entries with size 0 or an empty name produce
  nothing.
\<close>

theorem C5_unpack_one_file_per_used_entry:
  "unpack fr rel_unpack_dir self =
     \<lparr>extracted =
        map (\<lambda>e. (path_div rel_unpack_dir (Path (name e)), offset e, size_field e))
            (filter is_unpacked (img_header_entries (data self))),
      unpacked_files =
        map (\<lambda>e. FileResult (Some fr) (path_div rel_unpack_dir (Path (name e))) {})
            (filter is_unpacked (img_header_entries (data self)))\<rparr>"
  by (simp add: unpack_def unpack_loop_filter)

subsection \<open>C6: labels and metadata of a Huawei image\<close>

text \<open>
  C6: \<^verbatim>\<open>set_metadata_and_labels\<close> always returns; the labels are exactly
  \<^verbatim>\<open>['android', 'bootloader', 'huawei']\<close>, and the metadata has the one key
  \<^verbatim>\<open>partitions\<close>, bound to the list of the records \<open>{name, offset, size}\<close> of the header
  entries with a size other than 0, whatever their names, in the order of the header
  entries.
\<close>

theorem C6_labels_and_partitions:
  "labels (Huawei_set_metadata_and_labels self) = [''android'', ''bootloader'', ''huawei'']
   \<and> dom (metadata (Huawei_set_metadata_and_labels self)) = {''partitions''}
   \<and> metadata (Huawei_set_metadata_and_labels self) ''partitions''
       = Some (MList (map partition_record
                 (filter (\<lambda>e. size_field e \<noteq> 0) (img_header_entries (data self)))))"
  by (simp add: Huawei_set_metadata_and_labels_def partitions_loop_filter)

end
